theory Spec2Isabelle
  imports Complex_Main "HOL-Library.AList"
begin

section \<open>Data model (types.ts, constants.ts)\<close>

text \<open>
  Conventions of the embedding.
  \<^item> A JavaScript \<open>number\<close> is an exact rational (\<open>rat\<close>): NaN, the infinities and
    binary rounding are outside the model; \<open>typeof v === 'number'\<close> on an optional field is
    \<open>v \<noteq> None\<close>, and so is \<open>Number.isFinite\<close>.
  \<^item> A canonical ISO date string \<open>YYYY-MM-DD\<close> is its day number (\<open>int\<close>): string
    comparison and \<open>localeCompare\<close> on such strings are the order of the day numbers, and
    \<open>Date\<close> arithmetic is calendar-day arithmetic (no time zone, no daylight saving).
  \<^item> The source has no \<open>throw\<close> on the paths modelled, so the functions return plain
    values. A date is always a valid day: an \<open>Invalid Date\<close> object, on which
    \<open>toISOString\<close> raises, is outside the model.
  \<^item> Record fields carry a prefix naming their interface, since several interfaces of
    the source share field names (\<open>id\<close>, \<open>sets\<close>, \<open>weightKg\<close>, \<open>waistCm\<close>).
\<close>

type_synonym date = int

datatype TrainingDayType = Gym | NoGym

datatype MealName = Desayuno | Comida | Cena

datatype MealSource = Preset | Manual

record MealItem =
  mi_id :: string
  mi_dayId :: string
  mi_meal :: MealName
  mi_presetId :: "string option"
  mi_grams :: rat
  mi_p :: rat
  mi_f :: rat
  mi_c :: rat
  mi_kcal :: rat
  mi_source :: MealSource
  mi_notes :: "string option"

record WorkoutSet =
  ws_exerciseId :: string
  ws_sets :: rat
  ws_reps :: rat
  ws_weightKg :: rat
  ws_rir :: "rat option"
  ws_exercise :: "string option"

record WorkoutSession =
  sess_id :: string
  sess_dayId :: string
  sess_durationMin :: "rat option"
  sess_sets :: "WorkoutSet list"

record Adherence =
  nutritionPercent :: int
  kpiFlags :: "string list"

record DailyLog =
  log_id :: string
  log_date :: date
  log_dayType :: TrainingDayType
  log_weightKg :: "rat option"
  log_waistCm :: "rat option"
  log_lumbarPain :: int
  log_sleepHours :: "rat option"
  log_steps :: "rat option"
  log_note :: "string option"
  log_meals :: "MealItem list"
  log_workout :: "WorkoutSession list"
  log_adherence :: Adherence

record WeeklyMeasurement =
  wk_id :: string
  wk_weekStart :: date
  wk_avgWeightKg :: "rat option"
  wk_waistCm :: "rat option"
  wk_avgLumbarPain :: "rat option"
  wk_steps :: "rat option"
  wk_sleepHours :: "rat option"
  wk_chestCm :: "rat option"
  wk_shouldersCm :: "rat option"
  wk_armCm :: "rat option"
  wk_hipsCm :: "rat option"

text \<open>Of \<open>AppState\<close> the engine reads \<open>logs\<close> and \<open>weeklyMeasurements\<close> only.\<close>

record AppState =
  logs :: "DailyLog list"
  weeklyMeasurements :: "WeeklyMeasurement list"

definition CORE_EXERCISE_IDS :: "string list" where
  "CORE_EXERCISE_IDS = [''jalon'', ''remo'', ''laterales'', ''press_inclinado'']"

record DayTarget =
  tg_kcal :: rat
  tg_p :: rat
  tg_f :: rat
  tg_c :: rat

fun DAY_TARGETS :: "TrainingDayType \<Rightarrow> DayTarget" where
  "DAY_TARGETS Gym = \<lparr>tg_kcal = 2200, tg_p = 150, tg_f = 60, tg_c = 250\<rparr>"
| "DAY_TARGETS NoGym = \<lparr>tg_kcal = 2000, tg_p = 150, tg_f = 70, tg_c = 170\<rparr>"

section \<open>Numeric helpers (metrics.ts)\<close>

definition clamp :: "'a::linorder \<Rightarrow> 'a \<Rightarrow> 'a \<Rightarrow> 'a" where
  "clamp v lo hi = max lo (min hi v)"

text \<open>\<open>Math.round\<close>: the nearest integer, a tie going up.\<close>

definition mathRound :: "rat \<Rightarrow> int" where
  "mathRound x = \<lfloor>x + 1 / 2\<rfloor>"

text \<open>\<open>Number(x.toFixed(d))\<close>: the nearest multiple of \<open>10^-d\<close>, a tie going away from zero.\<close>

definition toFixedNum :: "nat \<Rightarrow> rat \<Rightarrow> rat" where
  "toFixedNum d x =
     (if x < 0 then - (of_int \<lfloor>(- x) * 10 ^ d + 1 / 2\<rfloor> / 10 ^ d)
      else of_int \<lfloor>x * 10 ^ d + 1 / 2\<rfloor> / 10 ^ d)"

definition average :: "rat list \<Rightarrow> rat" where
  "average vals =
     (if vals = [] then 0
      else toFixedNum 2 (foldl (\<lambda>acc v. acc + v) 0 vals / of_nat (length vals)))"

section \<open>Empty records\<close>

text \<open>
  \<open>createEmptySession\<close> and \<open>createEmptyLog\<close> call \<open>uid()\<close>, which draws on the clock and on
  \<open>Math.random\<close>; the identifier is an argument here.
\<close>

definition createEmptySession :: "string \<Rightarrow> string \<Rightarrow> WorkoutSession" where
  "createEmptySession ident dayId =
     \<lparr>sess_id = ident, sess_dayId = dayId, sess_durationMin = None, sess_sets = []\<rparr>"

definition createEmptyLog :: "string \<Rightarrow> date \<Rightarrow> DailyLog" where
  "createEmptyLog ident d =
     \<lparr>log_id = ident, log_date = d, log_dayType = NoGym, log_weightKg = None, log_waistCm = None,
      log_lumbarPain = 0, log_sleepHours = None, log_steps = None, log_note = None,
      log_meals = [], log_workout = [createEmptySession ident ident],
      log_adherence = \<lparr>nutritionPercent = 0, kpiFlags = []\<rparr>\<rparr>"

text \<open>\<open>emptyWeeklyMeasurement\<close> of App.tsx: a weekly record with no metric set.\<close>

definition emptyWeeklyMeasurement :: "date \<Rightarrow> WeeklyMeasurement" where
  "emptyWeeklyMeasurement weekStart =
     \<lparr>wk_id = [], wk_weekStart = weekStart, wk_avgWeightKg = None, wk_waistCm = None,
      wk_avgLumbarPain = None, wk_steps = None, wk_sleepHours = None, wk_chestCm = None,
      wk_shouldersCm = None, wk_armCm = None, wk_hipsCm = None\<rparr>"

section \<open>Totals and adherence\<close>

record DailyTotal =
  tot_p :: rat
  tot_f :: rat
  tot_c :: rat
  tot_kcal :: rat

definition getDailyTotals :: "DailyLog \<Rightarrow> DailyTotal" where
  "getDailyTotals lg =
     foldl (\<lambda>acc m. \<lparr>tot_p = tot_p acc + mi_p m, tot_f = tot_f acc + mi_f m,
                      tot_c = tot_c acc + mi_c m, tot_kcal = tot_kcal acc + mi_kcal m\<rparr>)
       \<lparr>tot_p = 0, tot_f = 0, tot_c = 0, tot_kcal = 0\<rparr> (log_meals lg)"

definition getSetExerciseId :: "WorkoutSet \<Rightarrow> string" where
  "getSetExerciseId s =
     (if ws_exerciseId s \<noteq> [] then ws_exerciseId s
      else (case ws_exercise s of Some e \<Rightarrow> (if e \<noteq> [] then e else []) | None \<Rightarrow> []))"

text \<open>The name of a meal slot as the source writes it (the string value of \<open>MealName\<close>).\<close>

definition slotName :: "MealName \<Rightarrow> string" where
  "slotName s = (case s of Desayuno \<Rightarrow> ''desayuno'' | Comida \<Rightarrow> ''comida'' | Cena \<Rightarrow> ''cena'')"

definition closeness :: "rat \<Rightarrow> rat \<Rightarrow> rat" where
  "closeness actual target =
     (if target \<le> 0 then 1 else clamp (1 - \<bar>actual - target\<bar> / target) 0 1)"

definition computeDayAdherence :: "DailyLog \<Rightarrow> Adherence" where
  "computeDayAdherence lg =
     (let totals = getDailyTotals lg;
          target = DAY_TARGETS (log_dayType lg);
          cDesayuno = list_ex (\<lambda>m. mi_meal m = Desayuno) (log_meals lg);
          cComida = list_ex (\<lambda>m. mi_meal m = Comida) (log_meals lg);
          cCena = list_ex (\<lambda>m. mi_meal m = Cena) (log_meals lg);
          flags = (if \<not> cDesayuno then [''missing_desayuno''] else [])
                @ (if \<not> cComida then [''missing_comida''] else [])
                @ (if \<not> cCena then [''missing_cena''] else []);
          mealScore = of_nat (length (filter id [cDesayuno, cComida, cCena])) / 3;
          macroScore = closeness (tot_p totals) (tg_p target) * (45 / 100)
                     + closeness (tot_f totals) (tg_f target) * (2 / 10)
                     + closeness (tot_c totals) (tg_c target) * (2 / 10)
                     + closeness (tot_kcal totals) (tg_kcal target) * (15 / 100)
      in \<lparr>nutritionPercent =
             clamp (mathRound ((mealScore * (35 / 100) + macroScore * (65 / 100)) * 100)) 0 100,
           kpiFlags = flags\<rparr>)"

section \<open>Range filter\<close>

record Range =
  r_start :: date
  r_end :: date

definition addDays :: "date \<Rightarrow> int \<Rightarrow> date" where
  "addDays d days = d + days"

definition getRange :: "int \<Rightarrow> date \<Rightarrow> Range" where
  "getRange days fromDate = \<lparr>r_start = addDays fromDate (- (days - 1)), r_end = fromDate\<rparr>"

definition isInRange :: "date \<Rightarrow> date \<Rightarrow> date \<Rightarrow> bool" where
  "isInRange d s e = (d \<ge> s \<and> d \<le> e)"

definition filterRange :: "DailyLog list \<Rightarrow> Range \<Rightarrow> DailyLog list" where
  "filterRange ls rng = filter (\<lambda>lg. isInRange (log_date lg) (r_start rng) (r_end rng)) ls"

definition filterWeeklyRange :: "WeeklyMeasurement list \<Rightarrow> Range \<Rightarrow> WeeklyMeasurement list" where
  "filterWeeklyRange weeks rng =
     filter (\<lambda>week. isInRange (wk_weekStart week) (r_start rng) (r_end rng)) weeks"

section \<open>Fallback resolver\<close>

text \<open>
  \<open>WeeklyNumberField\<close> is \<open>keyof Omit<WeeklyMeasurement, 'id' | 'weekStart'>\<close>; a daily field
  is any \<open>keyof DailyLog\<close>. \<open>weeklyNumber\<close> and \<open>dailyNumber\<close> read \<open>row[field]\<close> and give
  its value when \<open>typeof\<close> says \<open>number\<close>.
\<close>

datatype WeeklyNumberField =
  W_avgWeightKg | W_waistCm | W_avgLumbarPain | W_steps | W_sleepHours
  | W_chestCm | W_shouldersCm | W_armCm | W_hipsCm

datatype DailyLogKey =
  K_id | K_date | K_dayType | K_weightKg | K_waistCm | K_lumbarPain | K_sleepHours
  | K_steps | K_note | K_meals | K_workout | K_adherence

fun weeklyNumber :: "WeeklyNumberField \<Rightarrow> WeeklyMeasurement \<Rightarrow> rat option" where
  "weeklyNumber W_avgWeightKg row = wk_avgWeightKg row"
| "weeklyNumber W_waistCm row = wk_waistCm row"
| "weeklyNumber W_avgLumbarPain row = wk_avgLumbarPain row"
| "weeklyNumber W_steps row = wk_steps row"
| "weeklyNumber W_sleepHours row = wk_sleepHours row"
| "weeklyNumber W_chestCm row = wk_chestCm row"
| "weeklyNumber W_shouldersCm row = wk_shouldersCm row"
| "weeklyNumber W_armCm row = wk_armCm row"
| "weeklyNumber W_hipsCm row = wk_hipsCm row"

fun dailyNumber :: "DailyLogKey \<Rightarrow> DailyLog \<Rightarrow> rat option" where
  "dailyNumber K_weightKg row = log_weightKg row"
| "dailyNumber K_waistCm row = log_waistCm row"
| "dailyNumber K_lumbarPain row = Some (of_int (log_lumbarPain row))"
| "dailyNumber K_sleepHours row = log_sleepHours row"
| "dailyNumber K_steps row = log_steps row"
| "dailyNumber K_id row = None"
| "dailyNumber K_date row = None"
| "dailyNumber K_dayType row = None"
| "dailyNumber K_note row = None"
| "dailyNumber K_meals row = None"
| "dailyNumber K_workout row = None"
| "dailyNumber K_adherence row = None"

text \<open>
  \<open>[...rows].sort((a, b) => b.date.localeCompare(a.date))\<close>: a stable sort, descending by
  date, hence \<open>sort_key\<close> on the negated day number.
\<close>

definition lastNumberFor :: "DailyLog list \<Rightarrow> DailyLogKey \<Rightarrow> rat option" where
  "lastNumberFor rows field =
     (let reversed = sort_key (\<lambda>r. - log_date r) rows
      in case find (\<lambda>item. dailyNumber field item \<noteq> None) reversed of
           None \<Rightarrow> None
         | Some row \<Rightarrow> dailyNumber field row)"

definition lastWeeklyNumber :: "WeeklyMeasurement list \<Rightarrow> WeeklyNumberField \<Rightarrow> rat option" where
  "lastWeeklyNumber rows field =
     (let reversed = sort_key (\<lambda>r. - wk_weekStart r) rows
      in case find (\<lambda>item. weeklyNumber field item \<noteq> None) reversed of
           None \<Rightarrow> None
         | Some row \<Rightarrow> weeklyNumber field row)"

definition avgByField :: "DailyLog list \<Rightarrow> DailyLogKey \<Rightarrow> rat" where
  "avgByField rows field =
     average (map the (filter (\<lambda>v. v \<noteq> None) (map (dailyNumber field) rows)))"

definition avgWeeklyByField :: "WeeklyMeasurement list \<Rightarrow> WeeklyNumberField \<Rightarrow> rat" where
  "avgWeeklyByField rows field =
     average (map the (filter (\<lambda>v. v \<noteq> None) (map (weeklyNumber field) rows)))"

definition latestFromWeeklyOrDaily ::
  "WeeklyMeasurement list \<Rightarrow> DailyLog list \<Rightarrow> WeeklyNumberField \<Rightarrow> DailyLogKey \<Rightarrow> rat option" where
  "latestFromWeeklyOrDaily weeklyRows dailyRows weeklyField dailyField =
     (case lastWeeklyNumber weeklyRows weeklyField of
        Some weeklyValue \<Rightarrow> Some weeklyValue
      | None \<Rightarrow>
          (case lastNumberFor dailyRows dailyField of
             None \<Rightarrow> None
           | Some dailyValue \<Rightarrow> Some dailyValue))"

definition avgFromWeeklyOrDaily ::
  "WeeklyMeasurement list \<Rightarrow> DailyLog list \<Rightarrow> WeeklyNumberField \<Rightarrow> DailyLogKey \<Rightarrow> rat" where
  "avgFromWeeklyOrDaily weeklyRows dailyRows weeklyField dailyField =
     (let hasWeeklyValue = list_ex (\<lambda>row. weeklyNumber weeklyField row \<noteq> None) weeklyRows
      in if hasWeeklyValue then avgWeeklyByField weeklyRows weeklyField
         else avgByField dailyRows dailyField)"

definition lumbarAvg :: "DailyLog list \<Rightarrow> rat" where
  "lumbarAvg rows = average (map (\<lambda>row. of_int (log_lumbarPain row)) rows)"

definition latestWeeklyPainAverage :: "WeeklyMeasurement list \<Rightarrow> rat option" where
  "latestWeeklyPainAverage rows =
     (let vals = map the (filter (\<lambda>v. v \<noteq> None) (map wk_avgLumbarPain rows))
      in if vals = [] then None else Some (average vals))"

section \<open>Pain-spike detector\<close>

definition isNextDay :: "date \<Rightarrow> date \<Rightarrow> bool" where
  "isNextDay a b = (addDays a 1 = b)"

text \<open>
  The \<open>for\<close> loop of \<open>hasConsecutivePainSpike\<close> over the sorted rows, with its two
  variables \<open>run\<close> and \<open>lastDate\<close> as arguments; \<open>return true\<close> leaves the loop.
\<close>

fun spikeLoop :: "int \<Rightarrow> int \<Rightarrow> int \<Rightarrow> date option \<Rightarrow> DailyLog list \<Rightarrow> bool" where
  "spikeLoop threshold minStreak run lastDate [] = False"
| "spikeLoop threshold minStreak run lastDate (row # rest) =
     (if log_lumbarPain row \<ge> threshold then
        (let run' = (case lastDate of
                       Some d \<Rightarrow> (if isNextDay d (log_date row) then run + 1 else 1)
                     | None \<Rightarrow> 1)
         in if run' \<ge> minStreak then True
            else spikeLoop threshold minStreak run' (Some (log_date row)) rest)
      else spikeLoop threshold minStreak 0 (Some (log_date row)) rest)"

definition hasConsecutivePainSpike :: "DailyLog list \<Rightarrow> int \<Rightarrow> int \<Rightarrow> bool" where
  "hasConsecutivePainSpike rows threshold minStreak =
     (let ordered = sort_key log_date rows
      in if ordered = [] then False else spikeLoop threshold minStreak 0 None ordered)"

definition weekHasHighPain :: "WeeklyMeasurement list \<Rightarrow> rat \<Rightarrow> bool" where
  "weekHasHighPain rows threshold =
     list_ex (\<lambda>row. case wk_avgLumbarPain row of None \<Rightarrow> False | Some v \<Rightarrow> v \<ge> threshold) rows"

section \<open>Performance index\<close>

text \<open>
  \<open>groupedByDate\<close> is a JavaScript \<open>Map\<close>: an association list in insertion order, where
  \<open>set\<close> on a present key replaces the value in place (\<open>AList.update\<close>).
\<close>

text \<open>
  \<open>setLoad\<close> is the \<open>load\<close> of the reducer, \<open>logBest\<close> the \<open>best\<close> that the callback of
  \<open>rows.forEach\<close> computes for one log, \<open>groupByDate\<close> the map after the \<open>forEach\<close>, and
  \<open>exerciseDiff\<close> the callback of \<open>keys.map\<close> in \<open>performanceIndex\<close>.
\<close>

definition setLoad :: "WorkoutSet \<Rightarrow> rat" where
  "setLoad s = ws_sets s * ws_reps s * ws_weightKg s"

definition logBest :: "string \<Rightarrow> DailyLog \<Rightarrow> rat" where
  "logBest exercise lg =
     foldl (\<lambda>acc s. max acc (setLoad s)) 0
       (filter (\<lambda>s. getSetExerciseId s = exercise) (concat (map sess_sets (log_workout lg))))"

definition groupByDate :: "string \<Rightarrow> DailyLog list \<Rightarrow> (date \<times> rat) list" where
  "groupByDate exercise rows =
     foldl (\<lambda>groupedByDate lg.
              (let day = log_date lg; best = logBest exercise lg
               in if best > 0
                  then AList.update day
                         (max (case map_of groupedByDate day of None \<Rightarrow> 0 | Some v \<Rightarrow> v) best)
                         groupedByDate
                  else groupedByDate))
       [] rows"

definition getExerciseBest :: "DailyLog list \<Rightarrow> string \<Rightarrow> rat" where
  "getExerciseBest rows exercise = average (map snd (groupByDate exercise rows))"

definition exerciseDiff :: "DailyLog list \<Rightarrow> DailyLog list \<Rightarrow> string \<Rightarrow> rat" where
  "exerciseDiff currentWindow previousWindow key =
     (let current = getExerciseBest currentWindow key;
          previous = getExerciseBest previousWindow key
      in if previous = 0 \<or> current = 0 then 0 else (current - previous) / previous)"

definition performanceIndex :: "AppState \<Rightarrow> date \<Rightarrow> rat" where
  "performanceIndex state fromDate =
     (let currentWindow = filterRange (logs state) (getRange 7 fromDate);
          previousWindow = filterRange (logs state) (getRange 7 (addDays fromDate (- 7)));
          diffs = map (exerciseDiff currentWindow previousWindow) CORE_EXERCISE_IDS
      in if diffs = [] then 0
         else toFixedNum 3 (foldl (\<lambda>a b. a + b) 0 diffs / of_nat (length diffs)))"

section \<open>Decision engine and KPI summary\<close>

datatype KpiDecision = KpiNone | Down150kcal | Up125kcal | Deload

text \<open>
  The four fixed rationale texts of \<open>decide\<close>, in the order of its \<open>return\<close> statements:
  \<open>ReasonDeload\<close> is "Dolor lumbar alto (semanal o diario). Aplicar deload 30-40% de volumen
  1 semana y sustituciones seguras.", \<open>ReasonDown\<close> is "No baja cintura ni peso, adherencia
  >=80. Sugerencia: -150 kcal o +2000 pasos por dia.", \<open>ReasonUp\<close> is the text on a loss of
  more than 0.6 kg per week or a drop of performance, \<open>ReasonNone\<close> is "Sin ajuste
  automatico en esta quincena.".
\<close>

datatype Reason = ReasonDeload | ReasonDown | ReasonUp | ReasonNone

record Decision =
  decision :: KpiDecision
  reason :: Reason

text \<open>
  The expression
  \<open>rows.length ? Math.round(rows.reduce((sum, log) => sum +
  computeDayAdherence(log).nutritionPercent, 0) / rows.length) : 0\<close>
  stands three times in the source (in \<open>decide\<close> for \<open>this14\<close>, in \<open>calculateKpis\<close> for
  \<open>rows7\<close> and \<open>rows14\<close>).
\<close>

definition windowAdherence :: "DailyLog list \<Rightarrow> int" where
  "windowAdherence rows =
     (if rows \<noteq> []
      then mathRound (of_int (foldl (\<lambda>sum lg. sum + nutritionPercent (computeDayAdherence lg)) 0 rows)
                        / of_nat (length rows))
      else 0)"

definition decide :: "AppState \<Rightarrow> date \<Rightarrow> Decision" where
  "decide state fromDate =
     (let this14 = filterRange (logs state) (getRange 14 fromDate);
          prev14 = filterRange (logs state) (getRange 14 (addDays fromDate (- 14)));
          this14Weekly = filterWeeklyRange (weeklyMeasurements state) (getRange 14 fromDate);
          prev14Weekly =
            filterWeeklyRange (weeklyMeasurements state) (getRange 14 (addDays fromDate (- 14)));
          hasHighPain = (weekHasHighPain this14Weekly 7 \<or> hasConsecutivePainSpike this14 7 3)
      in if hasHighPain then \<lparr>decision = Deload, reason = ReasonDeload\<rparr>
         else
          (let thisWaist = latestFromWeeklyOrDaily this14Weekly this14 W_waistCm K_waistCm;
               prevWaist = latestFromWeeklyOrDaily prev14Weekly prev14 W_waistCm K_waistCm;
               thisWeight = avgFromWeeklyOrDaily this14Weekly this14 W_avgWeightKg K_weightKg;
               prevWeight = avgFromWeeklyOrDaily prev14Weekly prev14 W_avgWeightKg K_weightKg;
               adherence = windowAdherence this14;
               waistNotDown = (case thisWaist of
                                 None \<Rightarrow> False
                               | Some tw \<Rightarrow> (case prevWaist of None \<Rightarrow> False | Some pw \<Rightarrow> tw \<ge> pw));
               weightNotDown =
                 (if thisWeight \<noteq> 0 \<and> prevWeight \<noteq> 0 then thisWeight \<ge> prevWeight else False);
               perf = performanceIndex state fromDate
           in if waistNotDown \<and> weightNotDown \<and> adherence \<ge> 80
              then \<lparr>decision = Down150kcal, reason = ReasonDown\<rparr>
              else
               (let weightDrop = (if prevWeight \<noteq> 0 then prevWeight - thisWeight else 0)
                in if weightDrop > 6 / 10 \<or> perf < - (5 / 100)
                   then \<lparr>decision = Up125kcal, reason = ReasonUp\<rparr>
                   else \<lparr>decision = KpiNone, reason = ReasonNone\<rparr>)))"

text \<open>
  Names for the local constants of \<open>decide\<close>, as functions of the state and the reference
  date: the two 14-day windows of logs and of weekly measurements, \<open>hasHighPain\<close>, and the
  waist and weight values that the rules compare.
\<close>

abbreviation this14 :: "AppState \<Rightarrow> date \<Rightarrow> DailyLog list" where
  "this14 st d \<equiv> filterRange (logs st) (getRange 14 d)"

abbreviation prev14 :: "AppState \<Rightarrow> date \<Rightarrow> DailyLog list" where
  "prev14 st d \<equiv> filterRange (logs st) (getRange 14 (addDays d (- 14)))"

abbreviation this14Weekly :: "AppState \<Rightarrow> date \<Rightarrow> WeeklyMeasurement list" where
  "this14Weekly st d \<equiv> filterWeeklyRange (weeklyMeasurements st) (getRange 14 d)"

abbreviation prev14Weekly :: "AppState \<Rightarrow> date \<Rightarrow> WeeklyMeasurement list" where
  "prev14Weekly st d \<equiv> filterWeeklyRange (weeklyMeasurements st) (getRange 14 (addDays d (- 14)))"

abbreviation painSpike :: "AppState \<Rightarrow> date \<Rightarrow> bool" where
  "painSpike st d \<equiv> weekHasHighPain (this14Weekly st d) 7 \<or> hasConsecutivePainSpike (this14 st d) 7 3"

abbreviation thisWaist :: "AppState \<Rightarrow> date \<Rightarrow> rat option" where
  "thisWaist st d \<equiv> latestFromWeeklyOrDaily (this14Weekly st d) (this14 st d) W_waistCm K_waistCm"

abbreviation prevWaist :: "AppState \<Rightarrow> date \<Rightarrow> rat option" where
  "prevWaist st d \<equiv> latestFromWeeklyOrDaily (prev14Weekly st d) (prev14 st d) W_waistCm K_waistCm"

abbreviation thisWeight :: "AppState \<Rightarrow> date \<Rightarrow> rat" where
  "thisWeight st d \<equiv> avgFromWeeklyOrDaily (this14Weekly st d) (this14 st d) W_avgWeightKg K_weightKg"

abbreviation prevWeight :: "AppState \<Rightarrow> date \<Rightarrow> rat" where
  "prevWeight st d \<equiv> avgFromWeeklyOrDaily (prev14Weekly st d) (prev14 st d) W_avgWeightKg K_weightKg"

record Kpis7 =
  k7_avgWeight :: rat
  k7_waist :: "rat option"
  k7_waistTrend :: "rat option"
  k7_lumbar :: rat
  k7_adherence :: int
  k7_weightPoints :: nat
  k7_waistPoints :: nat

record Kpis14 =
  k14_avgWeight :: rat
  k14_waist :: "rat option"
  k14_waistTrend :: "rat option"
  k14_lumbar :: rat
  k14_adherence :: int
  k14_perfIndex :: rat
  k14_decision :: KpiDecision
  k14_reason :: Reason

record KpiSummary =
  kpis7 :: Kpis7
  kpis14 :: Kpis14

text \<open>
  \<open>waistTrendOf\<close> and \<open>lumbarOf\<close> are the expressions of the fields \<open>waistTrend\<close> and
  \<open>lumbar\<close>, which the source writes out once for each of the two windows.
\<close>

definition waistTrendOf :: "rat option \<Rightarrow> rat option \<Rightarrow> rat option" where
  "waistTrendOf waist waistPrev =
     (case waist of
        None \<Rightarrow> None
      | Some w \<Rightarrow> (case waistPrev of None \<Rightarrow> None | Some wp \<Rightarrow> Some (toFixedNum 2 (w - wp))))"

definition lumbarOf :: "WeeklyMeasurement list \<Rightarrow> DailyLog list \<Rightarrow> rat" where
  "lumbarOf weekly rows =
     (case latestWeeklyPainAverage weekly of
        Some pain \<Rightarrow> pain
      | None \<Rightarrow> (if rows \<noteq> [] then lumbarAvg rows else 0))"

definition calculateKpis :: "AppState \<Rightarrow> date \<Rightarrow> KpiSummary" where
  "calculateKpis state fromDate =
     (let rows7 = filterRange (logs state) (getRange 7 fromDate);
          rows14 = filterRange (logs state) (getRange 14 fromDate);
          prev7 = filterRange (logs state) (getRange 7 (addDays fromDate (- 7)));
          prev14 = filterRange (logs state) (getRange 14 (addDays fromDate (- 14)));
          weekly7 = filterWeeklyRange (weeklyMeasurements state) (getRange 7 fromDate);
          weekly14 = filterWeeklyRange (weeklyMeasurements state) (getRange 14 fromDate);
          prevWeekly7 =
            filterWeeklyRange (weeklyMeasurements state) (getRange 7 (addDays fromDate (- 7)));
          prevWeekly14 =
            filterWeeklyRange (weeklyMeasurements state) (getRange 14 (addDays fromDate (- 14)));
          waist7 = latestFromWeeklyOrDaily weekly7 rows7 W_waistCm K_waistCm;
          waist14 = latestFromWeeklyOrDaily weekly14 rows14 W_waistCm K_waistCm;
          waist7Prev = latestFromWeeklyOrDaily prevWeekly7 prev7 W_waistCm K_waistCm;
          waist14Prev = latestFromWeeklyOrDaily prevWeekly14 prev14 W_waistCm K_waistCm;
          weightPoints = length (filter (\<lambda>row. wk_avgWeightKg row \<noteq> None) weekly7)
                       + length (filter (\<lambda>row. log_weightKg row \<noteq> None) rows7);
          waistPoints = length (filter (\<lambda>row. wk_waistCm row \<noteq> None) weekly7)
                      + length (filter (\<lambda>row. log_waistCm row \<noteq> None) rows7);
          d = decide state fromDate
      in \<lparr>kpis7 =
            \<lparr>k7_avgWeight = avgFromWeeklyOrDaily weekly7 rows7 W_avgWeightKg K_weightKg,
             k7_waist = waist7,
             k7_waistTrend = waistTrendOf waist7 waist7Prev,
             k7_lumbar = lumbarOf weekly7 rows7,
             k7_adherence = windowAdherence rows7,
             k7_weightPoints = weightPoints,
             k7_waistPoints = waistPoints\<rparr>,
          kpis14 =
            \<lparr>k14_avgWeight = avgFromWeeklyOrDaily weekly14 rows14 W_avgWeightKg K_weightKg,
             k14_waist = waist14,
             k14_waistTrend = waistTrendOf waist14 waist14Prev,
             k14_lumbar = lumbarOf weekly14 rows14,
             k14_adherence = windowAdherence rows14,
             k14_perfIndex = performanceIndex state fromDate,
             k14_decision = decision d,
             k14_reason = reason d\<rparr>\<rparr>)"

section \<open>Normalisation of stored weekly measurements (storage.ts)\<close>

text \<open>
  A raw field value, as \<open>typeof value === 'number' && Number.isFinite(value)\<close> sees it: a
  finite number, a number that is not finite, or anything else (\<open>undefined\<close> included).
\<close>

datatype RawNumber = Finite rat | NonFinite | NotNumber

record RawWeekly =
  raw_id :: "string option"
  raw_weekStart :: "date option"
  raw_avgWeightKg :: RawNumber
  raw_waistCm :: RawNumber
  raw_avgLumbarPain :: RawNumber
  raw_steps :: RawNumber
  raw_sleepHours :: RawNumber
  raw_chestCm :: RawNumber
  raw_shouldersCm :: RawNumber
  raw_armCm :: RawNumber
  raw_hipsCm :: RawNumber

fun finiteOrUndefined :: "RawNumber \<Rightarrow> rat option" where
  "finiteOrUndefined (Finite v) = Some v"
| "finiteOrUndefined NonFinite = None"
| "finiteOrUndefined NotNumber = None"

text \<open>
  \<open>normalizeRow\<close> is the callback of \<open>.map\<close> together with \<open>.filter((row) => row.weekStart)\<close>:
  a record whose \<open>weekStart\<close> is missing or empty (\<open>raw_weekStart = None\<close>) is dropped.
  \<open>row.id ?? uid()\<close> takes the identifier from the parameter \<open>uid\<close>, at the position of the
  row, since \<open>uid()\<close> draws on the clock and on \<open>Math.random\<close>. \<open>filterSeen\<close> is the second
  filter, whose callback reads and extends the set \<open>seen\<close>.
\<close>

definition normalizeRow :: "(nat \<Rightarrow> string) \<Rightarrow> nat \<Rightarrow> RawWeekly \<Rightarrow> WeeklyMeasurement option" where
  "normalizeRow uid i row =
     (case raw_weekStart row of
        None \<Rightarrow> None
      | Some weekStart \<Rightarrow>
          Some \<lparr>wk_id = (case raw_id row of Some ident \<Rightarrow> ident | None \<Rightarrow> uid i),
                wk_weekStart = weekStart,
                wk_avgWeightKg = finiteOrUndefined (raw_avgWeightKg row),
                wk_waistCm = finiteOrUndefined (raw_waistCm row),
                wk_avgLumbarPain = finiteOrUndefined (raw_avgLumbarPain row),
                wk_steps = finiteOrUndefined (raw_steps row),
                wk_sleepHours = finiteOrUndefined (raw_sleepHours row),
                wk_chestCm = finiteOrUndefined (raw_chestCm row),
                wk_shouldersCm = finiteOrUndefined (raw_shouldersCm row),
                wk_armCm = finiteOrUndefined (raw_armCm row),
                wk_hipsCm = finiteOrUndefined (raw_hipsCm row)\<rparr>)"

fun filterSeen :: "date set \<Rightarrow> WeeklyMeasurement list \<Rightarrow> WeeklyMeasurement list" where
  "filterSeen seen [] = []"
| "filterSeen seen (row # rest) =
     (if wk_weekStart row \<in> seen then filterSeen seen rest
      else row # filterSeen (insert (wk_weekStart row) seen) rest)"

definition normalizeWeeklyMeasurements :: "(nat \<Rightarrow> string) \<Rightarrow> RawWeekly list \<Rightarrow> WeeklyMeasurement list" where
  "normalizeWeeklyMeasurements uid rawWeekly =
     sort_key (\<lambda>r. - wk_weekStart r)
       (filterSeen {}
          (List.map_filter (\<lambda>(i, row). normalizeRow uid i row) (enumerate 0 rawWeekly)))"

section \<open>CSV serializer\<close>

text \<open>
  A cell of a row before it is converted to text: a string, a number to be converted by
  \<open>String(...)\<close>, or the date of the log. The conversions of numbers and of day numbers to
  text are parameters of the serializer (\<open>numStr\<close>, \<open>dateStr\<close>). The meals of a row are the
  meal items of the log, or the literal placeholder
  \<open>{ meal: '', grams: 0, p: 0, f: 0, c: 0, kcal: 0 }\<close> (which has no \<open>source\<close>) when the log
  has none.
\<close>

datatype CsvCell = Txt string | Num rat | Day date

datatype CsvMeal = MealRow MealItem | EmptyMealRow

definition renderCell :: "(rat \<Rightarrow> string) \<Rightarrow> (date \<Rightarrow> string) \<Rightarrow> CsvCell \<Rightarrow> string" where
  "renderCell numStr dateStr cell =
     (case cell of Txt s \<Rightarrow> s | Num v \<Rightarrow> numStr v | Day d \<Rightarrow> dateStr d)"

definition dayTypeName :: "TrainingDayType \<Rightarrow> string" where
  "dayTypeName t = (case t of Gym \<Rightarrow> ''gym'' | NoGym \<Rightarrow> ''nogym'')"

definition sourceName :: "MealSource \<Rightarrow> string" where
  "sourceName s = (case s of Preset \<Rightarrow> ''preset'' | Manual \<Rightarrow> ''manual'')"

fun joinWith :: "string \<Rightarrow> string list \<Rightarrow> string" where
  "joinWith sep [] = []"
| "joinWith sep [x] = x"
| "joinWith sep (x # y # rest) = x @ sep @ joinWith sep (y # rest)"

text \<open>The characters of \<open>/[",\n]/\<close>: the double quote is \<open>0x22\<close>, the newline \<open>0x0A\<close>.\<close>

definition escapeValue :: "string \<Rightarrow> string" where
  "escapeValue v =
     (if list_ex (\<lambda>ch. ch = CHR 0x22 \<or> ch = CHR '','' \<or> ch = CHR 0x0A) v
      then [CHR 0x22] @ concat (map (\<lambda>ch. if ch = CHR 0x22 then [CHR 0x22, CHR 0x22] else [ch]) v)
           @ [CHR 0x22]
      else v)"

definition getWeekForDate :: "WeeklyMeasurement list \<Rightarrow> date \<Rightarrow> WeeklyMeasurement option" where
  "getWeekForDate weeklyRows d =
     (let ordered = sort_key (\<lambda>r. - wk_weekStart r) weeklyRows
      in find (\<lambda>row. d \<ge> wk_weekStart row \<and> d \<le> addDays (wk_weekStart row) 6) ordered)"

text \<open>The header; the letter n with tilde of the source is its two bytes in UTF-8.\<close>

definition csvHeader :: "string list" where
  "csvHeader =
     [''fecha'', ''tipo_dia'', ''pesoKg'', ''cinturaCm'', ''dolor_lumbar'',
      ''sue'' @ [CHR 0xC3, CHR 0xB1] @ ''o_h'', ''pasos'', ''peso_semanal_kg'',
      ''cintura_semanal_cm'', ''dolor_lumbar_promedio'',
      ''sue'' @ [CHR 0xC3, CHR 0xB1] @ ''o_semanal_h'', ''pasos_semanal'', ''pecho_cm'',
      ''hombros_cm'', ''brazo_cm'', ''cadera_cm'', ''comida'', ''gramos'', ''proteinas'',
      ''grasas'', ''carbos'', ''kcal'', ''ejercicio'', ''sets'', ''reps'', ''kg'', ''rir'']"

text \<open>\<open>v ? String(v) : ''\<close> on an optional number, and \<open>weekly?.f != null ? String(weekly.f) : ''\<close>.\<close>

definition truthyCell :: "rat option \<Rightarrow> CsvCell" where
  "truthyCell v = (case v of None \<Rightarrow> Txt [] | Some x \<Rightarrow> (if x \<noteq> 0 then Num x else Txt []))"

definition weeklyCell :: "WeeklyMeasurement option \<Rightarrow> (WeeklyMeasurement \<Rightarrow> rat option) \<Rightarrow> CsvCell" where
  "weeklyCell weekly field =
     (case weekly of
        None \<Rightarrow> Txt []
      | Some w \<Rightarrow> (case field w of None \<Rightarrow> Txt [] | Some x \<Rightarrow> Num x))"

definition mealCells :: "CsvMeal option \<Rightarrow> CsvCell list" where
  "mealCells meal =
     (case meal of
        None \<Rightarrow> [Txt [], Txt [], Txt [], Txt [], Txt [], Txt []]
      | Some EmptyMealRow \<Rightarrow> [Txt '' (undefined)'', Num 0, Num 0, Num 0, Num 0, Num 0]
      | Some (MealRow m) \<Rightarrow>
          [Txt (slotName (mi_meal m) @ '' ('' @ sourceName (mi_source m) @ '')''),
           Num (mi_grams m), Num (mi_p m), Num (mi_f m), Num (mi_c m), Num (mi_kcal m)])"

definition setCells :: "WorkoutSet option \<Rightarrow> CsvCell list" where
  "setCells wset =
     (case wset of
        None \<Rightarrow> [Txt [], Txt [], Txt [], Txt [], Txt []]
      | Some s \<Rightarrow>
          [Txt (getSetExerciseId s), Num (ws_sets s), Num (ws_reps s), Num (ws_weightKg s),
           (case ws_rir s of None \<Rightarrow> Txt [] | Some r \<Rightarrow> Num r)])"

definition rowCells ::
  "DailyLog \<Rightarrow> WeeklyMeasurement option \<Rightarrow> CsvMeal option \<Rightarrow> WorkoutSet option \<Rightarrow> CsvCell list" where
  "rowCells lg weekly meal wset =
     [Day (log_date lg), Txt (dayTypeName (log_dayType lg)), truthyCell (log_weightKg lg),
      truthyCell (log_waistCm lg), Num (of_int (log_lumbarPain lg)), truthyCell (log_sleepHours lg),
      truthyCell (log_steps lg),
      weeklyCell weekly wk_avgWeightKg, weeklyCell weekly wk_waistCm,
      weeklyCell weekly wk_avgLumbarPain, weeklyCell weekly wk_sleepHours,
      weeklyCell weekly wk_steps, weeklyCell weekly wk_chestCm, weeklyCell weekly wk_shouldersCm,
      weeklyCell weekly wk_armCm, weeklyCell weekly wk_hipsCm]
     @ mealCells meal @ setCells wset"

definition rowLine :: "(rat \<Rightarrow> string) \<Rightarrow> (date \<Rightarrow> string) \<Rightarrow> CsvCell list \<Rightarrow> string" where
  "rowLine numStr dateStr cells = joinWith '','' (map escapeValue (map (renderCell numStr dateStr) cells))"

text \<open>\<open>xs[i]\<close>, which is \<open>undefined\<close> beyond the end of the array.\<close>

definition nthOpt :: "'a list \<Rightarrow> nat \<Rightarrow> 'a option" where
  "nthOpt xs i = (if i < length xs then Some (xs ! i) else None)"

definition csvMeals :: "DailyLog \<Rightarrow> CsvMeal list" where
  "csvMeals lg = (if log_meals lg \<noteq> [] then map MealRow (log_meals lg) else [EmptyMealRow])"

definition allSets :: "DailyLog \<Rightarrow> WorkoutSet list" where
  "allSets lg = concat (map sess_sets (log_workout lg))"

text \<open>The \<open>for\<close> loop over \<open>i\<close>, pushing one line per turn.\<close>

function rowLoop ::
  "(rat \<Rightarrow> string) \<Rightarrow> (date \<Rightarrow> string) \<Rightarrow> DailyLog \<Rightarrow> WeeklyMeasurement option \<Rightarrow> CsvMeal list
   \<Rightarrow> WorkoutSet list \<Rightarrow> nat \<Rightarrow> nat \<Rightarrow> string list \<Rightarrow> string list" where
  "rowLoop numStr dateStr lg weekly meals wsets rowsInDay i lines =
     (if i < rowsInDay
      then rowLoop numStr dateStr lg weekly meals wsets rowsInDay (i + 1)
             (lines @ [rowLine numStr dateStr (rowCells lg weekly (nthOpt meals i) (nthOpt wsets i))])
      else lines)"
  by pat_completeness auto
termination
  by (relation "measure (\<lambda>(numStr, dateStr, lg, weekly, meals, wsets, rowsInDay, i, lines). rowsInDay - i)")
     auto

definition logLines ::
  "(rat \<Rightarrow> string) \<Rightarrow> (date \<Rightarrow> string) \<Rightarrow> WeeklyMeasurement list \<Rightarrow> string list \<Rightarrow> DailyLog
   \<Rightarrow> string list" where
  "logLines numStr dateStr weeklyRows lines lg =
     (let meals = csvMeals lg;
          wsets = allSets lg;
          rowsInDay = max (length meals) (max (length wsets) 1);
          weekly = getWeekForDate weeklyRows (log_date lg)
      in rowLoop numStr dateStr lg weekly meals wsets rowsInDay 0 lines)"

definition toCsvLines ::
  "(rat \<Rightarrow> string) \<Rightarrow> (date \<Rightarrow> string) \<Rightarrow> DailyLog list \<Rightarrow> date \<Rightarrow> date \<Rightarrow> WeeklyMeasurement list
   \<Rightarrow> string list" where
  "toCsvLines numStr dateStr rows start end weeklyRows =
     (let selected = filter (\<lambda>row. isInRange (log_date row) start end) rows
      in foldl (logLines numStr dateStr weeklyRows) [joinWith '','' csvHeader] selected)"

definition toCsv ::
  "(rat \<Rightarrow> string) \<Rightarrow> (date \<Rightarrow> string) \<Rightarrow> DailyLog list \<Rightarrow> date \<Rightarrow> date \<Rightarrow> WeeklyMeasurement list
   \<Rightarrow> string" where
  "toCsv numStr dateStr rows start end weeklyRows =
     joinWith [CHR 0x0A] (toCsvLines numStr dateStr rows start end weeklyRows)"

section \<open>Auxiliary notions for the proofs\<close>




section \<open>Example states\<close>

text \<open>
  The examples take day 100 as reference date: the 14-day window is the days 87 to 100, the
  prior one the days 73 to 86; the 7-day windows are 94 to 100 and 87 to 93. A gym day whose
  three meals sum to protein 150, fat 60, carbohydrate 250 and 2200 kcal scores 100
  (\<open>exFullDay\<close>); with no carbohydrate and \<open>kk\<close> kcal it scores less (\<open>exDayKcal\<close>: 85 for
  1750 kcal, 80 for 594, 79 for 440), and with three empty meal items 35 (\<open>exDay35\<close>).
\<close>

definition exMeal :: "MealName \<Rightarrow> rat \<Rightarrow> rat \<Rightarrow> rat \<Rightarrow> rat \<Rightarrow> MealItem" where
  "exMeal slot pp ff cc kk =
     \<lparr>mi_id = ''m'', mi_dayId = ''d'', mi_meal = slot, mi_presetId = None, mi_grams = 100,
      mi_p = pp, mi_f = ff, mi_c = cc, mi_kcal = kk, mi_source = Manual, mi_notes = None\<rparr>"

definition exFullDay :: "date \<Rightarrow> DailyLog" where
  "exFullDay d = (createEmptyLog ''a'' d)\<lparr>log_dayType := Gym,
      log_meals := [exMeal Desayuno 50 20 80 700, exMeal Comida 50 20 80 700, exMeal Cena 50 20 90 800]\<rparr>"

definition exDayKcal :: "date \<Rightarrow> rat \<Rightarrow> DailyLog" where
  "exDayKcal d kk = (createEmptyLog ''b'' d)\<lparr>log_dayType := Gym,
      log_meals := [exMeal Desayuno 50 20 0 kk, exMeal Comida 50 20 0 0, exMeal Cena 50 20 0 0]\<rparr>"

definition exDay85 :: "date \<Rightarrow> DailyLog" where
  "exDay85 d = exDayKcal d 1750"

definition exDay35 :: "date \<Rightarrow> DailyLog" where
  "exDay35 d = (createEmptyLog ''c'' d)\<lparr>log_dayType := Gym,
      log_meals := [exMeal Desayuno 0 0 0 0, exMeal Comida 0 0 0 0, exMeal Cena 0 0 0 0]\<rparr>"

definition exWeek :: "date \<Rightarrow> rat \<Rightarrow> rat \<Rightarrow> WeeklyMeasurement" where
  "exWeek d w c = (emptyWeeklyMeasurement d)\<lparr>wk_avgWeightKg := Some w, wk_waistCm := Some c\<rparr>"

definition exBoth :: AppState where
  "exBoth = \<lparr>logs = [exFullDay 100],
     weeklyMeasurements = [(exWeek 95 (724 / 10) 88)\<lparr>wk_avgLumbarPain := Some 8\<rparr>, exWeek 80 (724 / 10) 88]\<rparr>"

definition exFlat :: AppState where
  "exFlat = \<lparr>logs = [exDay85 100], weeklyMeasurements = [exWeek 95 (724 / 10) 88, exWeek 80 (724 / 10) 88]\<rparr>"

definition exNoWaist :: AppState where
  "exNoWaist = \<lparr>logs = [exFullDay 100],
     weeklyMeasurements = [(emptyWeeklyMeasurement 95)\<lparr>wk_avgWeightKg := Some (724 / 10)\<rparr>,
                           (emptyWeeklyMeasurement 80)\<lparr>wk_avgWeightKg := Some (724 / 10)\<rparr>]\<rparr>"



definition exHalf :: AppState where
  "exHalf = \<lparr>logs = [exFullDay 100, exDay35 99], weeklyMeasurements = []\<rparr>"

definition exRound :: AppState where
  "exRound = \<lparr>logs = [exDayKcal 100 594, exDayKcal 99 440],
     weeklyMeasurements = [exWeek 95 (724 / 10) 88, exWeek 80 (724 / 10) 88]\<rparr>"

definition emptyState :: AppState where
  "emptyState = \<lparr>logs = [], weeklyMeasurements = []\<rparr>"






definition exSet :: "string \<Rightarrow> rat \<Rightarrow> rat \<Rightarrow> rat \<Rightarrow> WorkoutSet" where
  "exSet ex n r w = \<lparr>ws_exerciseId = ex, ws_sets = n, ws_reps = r, ws_weightKg = w, ws_rir = None,
                      ws_exercise = None\<rparr>"

definition exWorkoutDay :: "date \<Rightarrow> WorkoutSet list \<Rightarrow> DailyLog" where
  "exWorkoutDay d ss = (createEmptyLog ''w'' d)
      \<lparr>log_workout := [\<lparr>sess_id = ''s'', sess_dayId = ''w'', sess_durationMin = None, sess_sets = ss\<rparr>]\<rparr>"



definition exRawWeek :: "date \<Rightarrow> rat \<Rightarrow> RawWeekly" where
  "exRawWeek d waist =
     \<lparr>raw_id = None, raw_weekStart = Some d, raw_avgWeightKg = NotNumber, raw_waistCm = Finite waist,
      raw_avgLumbarPain = NonFinite, raw_steps = NotNumber, raw_sleepHours = NotNumber,
      raw_chestCm = NotNumber, raw_shouldersCm = NotNumber, raw_armCm = NotNumber,
      raw_hipsCm = NotNumber\<rparr>"

definition exUid :: "nat \<Rightarrow> string" where
  "exUid i = replicate (Suc i) CHR ''u''"

definition exRaw :: "RawWeekly list" where
  "exRaw = [exRawWeek 7 80, (exRawWeek 14 81)\<lparr>raw_id := Some ''b''\<rparr>, exRawWeek 7 90,
            (exRawWeek 21 82)\<lparr>raw_weekStart := None\<rparr>]"

text \<open>
  Stand-ins for the two text conversions in the examples of the serializer: \<open>exNum\<close> agrees
  with \<open>String\<close> on 0.
\<close>

definition exNum :: "rat \<Rightarrow> string" where
  "exNum v = (if v = 0 then ''0'' else ''n'')"

definition exDate :: "date \<Rightarrow> string" where
  "exDate d = ''d''"

definition exCsvLog :: DailyLog where
  "exCsvLog = (exFullDay 100)
     \<lparr>log_meals := [exMeal Desayuno 50 20 80 700, exMeal Comida 50 20 80 700],
      log_workout := [\<lparr>sess_id = ''s'', sess_dayId = ''a'', sess_durationMin = None,
                       sess_sets = [exSet ''jalon'' 3 10 40]\<rparr>]\<rparr>"

definition exOnlySet :: DailyLog where
  "exOnlySet = exWorkoutDay 100 [exSet ''jalon'' 3 10 40]"

section \<open>The decision engine: priority order and thresholds\<close>

lemma decision_calculateKpis: "k14_decision (kpis14 (calculateKpis st d)) = decision (decide st d)"
  by (simp add: calculateKpis_def Let_def)

text \<open>
  Claim C1. Whenever the pain-spike detector fires on the 14-day window ending at the
  reference date (a weekly measurement of the window with average lumbar pain at least 7,
  or a qualifying streak in the window's daily logs), \<open>calculateKpis\<close> returns the decision
  \<open>deload\<close>, whatever waist, weight, adherence and performance index are.
\<close>

theorem pain_spike_deload:
  assumes "painSpike st d"
  shows "k14_decision (kpis14 (calculateKpis st d)) = Deload"
  using assms by (simp add: decision_calculateKpis decide_def Let_def)

text \<open>
  The witness is a state in which the conditions of \<open>down150kcal\<close> hold as well (waist
  88 to 88, average weight 72.4 to 72.4, adherence 100) while a weekly measurement of the
  window has average lumbar pain 8.
\<close>

theorem pain_spike_deload_witness:
  "painSpike exBoth 100
   \<and> thisWaist exBoth 100 = Some 88 \<and> prevWaist exBoth 100 = Some 88
   \<and> thisWeight exBoth 100 = 724 / 10 \<and> prevWeight exBoth 100 = 724 / 10
   \<and> windowAdherence (this14 exBoth 100) = 100
   \<and> k14_decision (kpis14 (calculateKpis exBoth 100)) = Deload"
proof -
  have spike: "painSpike exBoth 100" by code_simp
  have "thisWaist exBoth 100 = Some 88" by code_simp
  moreover have "prevWaist exBoth 100 = Some 88" by code_simp
  moreover have "thisWeight exBoth 100 = 724 / 10" by code_simp
  moreover have "prevWeight exBoth 100 = 724 / 10" by code_simp
  moreover have "windowAdherence (this14 exBoth 100) = 100" by code_simp
  ultimately show ?thesis using spike pain_spike_deload [OF spike] by simp
qed

text \<open>
  Claim C2, as stated, counts an unknown waist or weight as "not improved". The code
  does the opposite: with no waist reading at all, equal average weights and adherence 100,
  the decision is not \<open>down150kcal\<close>.
\<close>

theorem down150_unknown_counterexample:
  "\<not> painSpike exNoWaist 100
   \<and> thisWaist exNoWaist 100 = None
   \<and> thisWeight exNoWaist 100 \<ge> prevWeight exNoWaist 100
   \<and> windowAdherence (this14 exNoWaist 100) \<ge> 80
   \<and> k14_decision (kpis14 (calculateKpis exNoWaist 100)) \<noteq> Down150kcal"
  by code_simp

text \<open>
  Claim C2, amended. When no pain spike fires, the decision is \<open>down150kcal\<close> exactly when
  both latest waists are known and the one of the window is at least the one of the prior
  window, both average weights are known (nonzero) and the one of the window is at least
  the one of the prior window, and the 14-day adherence is at least 80. An unknown value
  makes the rule not fire.
\<close>

theorem down150_iff:
  assumes "\<not> painSpike st d"
  shows "k14_decision (kpis14 (calculateKpis st d)) = Down150kcal \<longleftrightarrow>
           (\<exists>tw pw. thisWaist st d = Some tw \<and> prevWaist st d = Some pw \<and> tw \<ge> pw)
         \<and> (thisWeight st d \<noteq> 0 \<and> prevWeight st d \<noteq> 0 \<and> thisWeight st d \<ge> prevWeight st d)
         \<and> windowAdherence (this14 st d) \<ge> 80"
  using assms
  by (auto simp add: decision_calculateKpis decide_def Let_def split: option.splits)

text \<open>The scenario of the claim: waist 88 to 88, average weight 72.4 to 72.4, adherence 85.\<close>

theorem down150_iff_witness:
  "\<not> painSpike exFlat 100
   \<and> thisWaist exFlat 100 = Some 88 \<and> prevWaist exFlat 100 = Some 88
   \<and> thisWeight exFlat 100 = 724 / 10 \<and> prevWeight exFlat 100 = 724 / 10
   \<and> windowAdherence (this14 exFlat 100) = 85
   \<and> k14_decision (kpis14 (calculateKpis exFlat 100)) = Down150kcal"
proof -
  have nospike: "\<not> painSpike exFlat 100" by code_simp
  have a: "thisWaist exFlat 100 = Some 88" by code_simp
  have b: "prevWaist exFlat 100 = Some 88" by code_simp
  have c: "thisWeight exFlat 100 = 724 / 10" by code_simp
  have e: "prevWeight exFlat 100 = 724 / 10" by code_simp
  have f: "windowAdherence (this14 exFlat 100) = 85" by code_simp
  show ?thesis using nospike a b c e f down150_iff [OF nospike] by simp
qed




text \<open>
  For a current-window average that is not negative the guard changes nothing: the decision
  is then \<open>up125kcal\<close> exactly when the plain difference exceeds 0.6 or the index is below
  -0.05.
\<close>

lemma up125_unguarded_nonneg:
  assumes "\<not> painSpike st d"
    and "k14_decision (kpis14 (calculateKpis st d)) \<noteq> Down150kcal"
    and "0 \<le> thisWeight st d"
  shows "k14_decision (kpis14 (calculateKpis st d)) = Up125kcal \<longleftrightarrow>
           prevWeight st d - thisWeight st d > 6 / 10 \<or> performanceIndex st d < - (5 / 100)"
  using assms
  by (auto simp add: decision_calculateKpis decide_def Let_def split: option.splits if_splits)

section \<open>The empty state and the window adherence\<close>

lemma foldl_add_int: "foldl (\<lambda>sum lg. sum + f lg) (a::int) rows = a + sum_list (map f rows)"
  by (induction rows arbitrary: a) auto

lemma windowAdherence_mean:
  "windowAdherence rows =
     (if rows = [] then 0
      else mathRound (of_int (sum_list (map (\<lambda>lg. nutritionPercent (computeDayAdherence lg)) rows))
                      / of_nat (length rows)))"
  by (simp add: windowAdherence_def foldl_add_int)

lemma filterRange_Nil: "filterRange [] r = []"
  by (simp add: filterRange_def)

lemma filterWeeklyRange_Nil: "filterWeeklyRange [] r = []"
  by (simp add: filterWeeklyRange_def)

lemma floor_half_rat: "\<lfloor>1 / 2 :: rat\<rfloor> = 0"
  by (simp add: floor_eq_iff)

lemma toFixedNum_zero: "toFixedNum n 0 = 0"
  by (simp add: toFixedNum_def floor_half_rat)

lemma getExerciseBest_Nil: "getExerciseBest [] key = 0"
  by (simp add: getExerciseBest_def groupByDate_def average_def)

lemma performanceIndex_no_logs: "performanceIndex \<lparr>logs = [], weeklyMeasurements = ws\<rparr> d = 0"
  by (simp add: performanceIndex_def Let_def filterRange_Nil exerciseDiff_def getExerciseBest_Nil
      CORE_EXERCISE_IDS_def toFixedNum_zero)

lemma decide_emptyState: "decision (decide emptyState d) = KpiNone"
proof -
  have a: "avgFromWeeklyOrDaily [] [] W_avgWeightKg K_weightKg = 0"
    by (simp add: avgFromWeeklyOrDaily_def avgByField_def average_def)
  have b: "latestFromWeeklyOrDaily [] [] W_waistCm K_waistCm = None"
    by (simp add: latestFromWeeklyOrDaily_def lastWeeklyNumber_def lastNumberFor_def)
  have c: "\<not> weekHasHighPain [] 7" by (simp add: weekHasHighPain_def)
  have e: "\<not> hasConsecutivePainSpike [] 7 3" by (simp add: hasConsecutivePainSpike_def)
  have f: "performanceIndex emptyState d = 0"
    by (simp add: emptyState_def performanceIndex_no_logs)
  show ?thesis
    using f by (simp add: decide_def Let_def emptyState_def filterRange_Nil filterWeeklyRange_Nil a b c e)
qed

text \<open>
  Claim C9, as stated, takes the 14-day adherence to be the mean of the per-day
  \<open>nutritionPercent\<close>. The code rounds that mean to an integer: for a window of two logs
  with 100 and 35 the mean is 67.5 and the engine's adherence is 68.
\<close>

theorem adherence_mean_counterexample:
  "this14 exHalf 100 = [exFullDay 100, exDay35 99]
   \<and> nutritionPercent (computeDayAdherence (exFullDay 100)) = 100
   \<and> nutritionPercent (computeDayAdherence (exDay35 99)) = 35
   \<and> k14_adherence (kpis14 (calculateKpis exHalf 100)) = 68
   \<and> (of_int (k14_adherence (kpis14 (calculateKpis exHalf 100))) :: rat) \<noteq> (100 + 35) / 2"
  by code_simp

text \<open>
  Claim C9, amended. For every reference date, \<open>calculateKpis\<close> on the state with no logs
  and no weekly measurements returns \<open>kpis7.adherence = 0\<close> and the decision \<open>none\<close>; in
  general the 14-day adherence is the mean of the per-day \<open>nutritionPercent\<close> over the logs
  of the window, rounded to the nearest integer (a tie going up), and 0 for a window with no
  logs. The functions of the model are total: the source has no \<open>throw\<close> on these paths.
\<close>

theorem empty_state_and_adherence:
  "k7_adherence (kpis7 (calculateKpis emptyState d)) = 0
   \<and> k14_decision (kpis14 (calculateKpis emptyState d)) = KpiNone
   \<and> k14_adherence (kpis14 (calculateKpis st d)) = windowAdherence (this14 st d)
   \<and> windowAdherence rows =
       (if rows = [] then 0
        else mathRound (of_int (sum_list (map (\<lambda>lg. nutritionPercent (computeDayAdherence lg)) rows))
                        / of_nat (length rows)))"
proof -
  have "k7_adherence (kpis7 (calculateKpis emptyState d)) = 0"
    by (simp add: calculateKpis_def Let_def emptyState_def filterRange_Nil windowAdherence_def)
  moreover have "k14_decision (kpis14 (calculateKpis emptyState d)) = KpiNone"
    by (simp add: decision_calculateKpis decide_emptyState)
  moreover have "k14_adherence (kpis14 (calculateKpis st d)) = windowAdherence (this14 st d)"
    by (simp add: calculateKpis_def Let_def)
  ultimately show ?thesis using windowAdherence_mean by simp
qed

text \<open>
  The rounding is visible in the decision: two logs scoring 80 and 79 have mean 79.5, below
  80, and the engine's adherence 80 lets the \<open>down150kcal\<close> rule fire.
\<close>

lemma rounded_adherence_reaches_threshold:
  "nutritionPercent (computeDayAdherence (exDayKcal 100 594)) = 80
   \<and> nutritionPercent (computeDayAdherence (exDayKcal 99 440)) = 79
   \<and> ((80 + 79) / 2 :: rat) < 80
   \<and> windowAdherence (this14 exRound 100) = 80
   \<and> k14_decision (kpis14 (calculateKpis exRound 100)) = Down150kcal"
  by code_simp

section \<open>The fallback resolver's average\<close>






section \<open>The macro-blended adherence\<close>










section \<open>The daily streak of the pain-spike detector\<close>










section \<open>The performance index\<close>
















section \<open>Normalisation of the weekly measurements\<close>

lemma normalizeRow_weekStart:
  "normalizeRow uid i x = Some r \<Longrightarrow> raw_weekStart x = Some (wk_weekStart r)"
  by (auto simp: normalizeRow_def split: option.splits)

lemma normalizeRow_None: "normalizeRow uid i x = None \<longleftrightarrow> raw_weekStart x = None"
  by (auto simp: normalizeRow_def split: option.splits)

lemma filterSeen_first:
  "r \<in> set (filterSeen seen (List.map_filter (\<lambda>(i, row). normalizeRow uid i row) (enumerate n raw))) \<Longrightarrow>
   \<exists>pre x post. raw = pre @ x # post \<and> normalizeRow uid (n + length pre) x = Some r
      \<and> (\<forall>y\<in>set pre. raw_weekStart y \<noteq> Some (wk_weekStart r)) \<and> wk_weekStart r \<notin> seen"
proof (induction raw arbitrary: n seen)
  case Nil
  then show ?case by (simp add: List.map_filter_simps)
next
  case (Cons y ys)
  let ?rest = "\<lambda>sn. filterSeen sn (List.map_filter (\<lambda>(i, row). normalizeRow uid i row) (enumerate (Suc n) ys))"
  have later: "\<exists>pre x post. y # ys = pre @ x # post \<and> normalizeRow uid (n + length pre) x = Some r
      \<and> (\<forall>z\<in>set pre. raw_weekStart z \<noteq> Some (wk_weekStart r)) \<and> wk_weekStart r \<notin> seen"
    if mem: "r \<in> set (?rest sn)" and sub: "seen \<subseteq> sn"
      and other: "wk_weekStart r \<notin> sn \<Longrightarrow> raw_weekStart y \<noteq> Some (wk_weekStart r)" for sn
  proof -
    from Cons.IH [OF mem] obtain pre x post where
      ys: "ys = pre @ x # post" and nr: "normalizeRow uid (Suc n + length pre) x = Some r"
      and pre: "\<forall>z\<in>set pre. raw_weekStart z \<noteq> Some (wk_weekStart r)" and ns: "wk_weekStart r \<notin> sn"
      by blast
    have "y # ys = (y # pre) @ x # post" using ys by simp
    moreover have "normalizeRow uid (n + length (y # pre)) x = Some r" using nr by simp
    moreover have "\<forall>z\<in>set (y # pre). raw_weekStart z \<noteq> Some (wk_weekStart r)"
      using pre other [OF ns] by simp
    moreover have "wk_weekStart r \<notin> seen" using ns sub by blast
    ultimately show ?thesis by blast
  qed
  show ?case
  proof (cases "normalizeRow uid n y")
    case None
    then have "raw_weekStart y = None" by (simp add: normalizeRow_None)
    moreover from Cons.prems None have "r \<in> set (?rest seen)"
      by (simp add: List.map_filter_simps)
    ultimately show ?thesis by (intro later [of seen]) simp_all
  next
    case (Some r0)
    then have w0: "raw_weekStart y = Some (wk_weekStart r0)" by (rule normalizeRow_weekStart)
    show ?thesis
    proof (cases "wk_weekStart r0 \<in> seen")
      case True
      with Cons.prems Some have "r \<in> set (?rest seen)"
        by (simp add: List.map_filter_simps)
      then show ?thesis using True w0 by (intro later [of seen]) auto
    next
      case False
      with Cons.prems Some have "r = r0 \<or> r \<in> set (?rest (insert (wk_weekStart r0) seen))"
        by (simp add: List.map_filter_simps)
      then show ?thesis
      proof
        assume "r = r0"
        then have "y # ys = [] @ y # ys \<and> normalizeRow uid (n + length ([] :: RawWeekly list)) y = Some r
          \<and> (\<forall>z\<in>set ([] :: RawWeekly list). raw_weekStart z \<noteq> Some (wk_weekStart r)) \<and> wk_weekStart r \<notin> seen"
          using Some False by simp
        then show ?thesis by blast
      next
        assume "r \<in> set (?rest (insert (wk_weekStart r0) seen))"
        then show ?thesis using w0 by (intro later [of "insert (wk_weekStart r0) seen"]) auto
      qed
    qed
  qed
qed

lemma filterSeen_weeks:
  "wk_weekStart ` set (filterSeen seen xs) = wk_weekStart ` set xs - seen"
  by (induction seen xs rule: filterSeen.induct) auto

lemma filterSeen_distinct: "distinct (map wk_weekStart (filterSeen seen xs))"
proof (induction seen xs rule: filterSeen.induct)
  case (1 seen)
  then show ?case by simp
next
  case (2 seen row rest)
  have "wk_weekStart row \<notin> wk_weekStart ` set (filterSeen (insert (wk_weekStart row) seen) rest)"
    unfolding filterSeen_weeks by simp
  with 2 show ?case by simp
qed

lemma mapped_weeks:
  "wk_weekStart ` set (List.map_filter (\<lambda>(i, row). normalizeRow uid i row) (enumerate n raw))
   = {w. Some w \<in> raw_weekStart ` set raw}"
proof (induction raw arbitrary: n)
  case Nil
  then show ?case by (simp add: List.map_filter_simps)
next
  case (Cons y ys)
  show ?case
  proof (cases "normalizeRow uid n y")
    case None
    then have "raw_weekStart y = None" by (simp add: normalizeRow_None)
    then show ?thesis using None Cons.IH [of "Suc n"] by (auto simp: List.map_filter_simps)
  next
    case (Some r0)
    then have "raw_weekStart y = Some (wk_weekStart r0)" by (rule normalizeRow_weekStart)
    then show ?thesis using Some Cons.IH [of "Suc n"] by (auto simp: List.map_filter_simps)
  qed
qed

text \<open>
  Claim C8, as stated, lets the later write win among records with the same \<open>weekStart\<close>.
  The \<open>seen\<close> filter keeps the first record of each week in the order of the input: of two
  records for week 7 with waist 80 and then 90, the one with waist 80 is retained.
\<close>

theorem normalize_later_wins_counterexample:
  "map raw_weekStart [exRawWeek 7 80, exRawWeek 7 90] = [Some 7, Some 7]
   \<and> map wk_waistCm (normalizeWeeklyMeasurements exUid [exRawWeek 7 80, exRawWeek 7 90]) = [Some 80]"
  by code_simp

text \<open>
  Claim C8, amended. The normalised list is sorted strictly descending by \<open>weekStart\<close> (so it
  has at most one record per week), it has a record for exactly the weeks of the input
  records that carry a \<open>weekStart\<close>, and each retained record is the normalisation of the
  first input record, in input order, with its \<open>weekStart\<close>.
\<close>

theorem normalize_first_wins:
  "sorted_wrt (\<lambda>a b. wk_weekStart a > wk_weekStart b) (normalizeWeeklyMeasurements uid raw)
   \<and> wk_weekStart ` set (normalizeWeeklyMeasurements uid raw) = {w. Some w \<in> raw_weekStart ` set raw}
   \<and> (\<forall>r\<in>set (normalizeWeeklyMeasurements uid raw).
        \<exists>pre x post. raw = pre @ x # post \<and> normalizeRow uid (length pre) x = Some r
          \<and> (\<forall>y\<in>set pre. raw_weekStart y \<noteq> Some (wk_weekStart r)))"
proof -
  let ?xs = "List.map_filter (\<lambda>(i, row). normalizeRow uid i row) (enumerate 0 raw)"
  let ?out = "normalizeWeeklyMeasurements uid raw"
  have out: "?out = sort_key (\<lambda>r. - wk_weekStart r) (filterSeen {} ?xs)"
    by (simp add: normalizeWeeklyMeasurements_def)
  have "distinct (map wk_weekStart ?out)"
    unfolding out by (simp add: distinct_map filterSeen_distinct [unfolded distinct_map])
  then have "distinct (map (\<lambda>r. - wk_weekStart r) ?out)"
    by (simp add: distinct_map inj_on_def)
  moreover have "sorted (map (\<lambda>r. - wk_weekStart r) ?out)"
    unfolding out by simp
  ultimately have "sorted_wrt (<) (map (\<lambda>r. - wk_weekStart r) ?out)"
    by (simp add: strict_sorted_iff)
  then have a: "sorted_wrt (\<lambda>a b. wk_weekStart a > wk_weekStart b) ?out"
    by (simp add: sorted_wrt_map)
  have b: "wk_weekStart ` set ?out = {w. Some w \<in> raw_weekStart ` set raw}"
    unfolding out by (simp add: filterSeen_weeks mapped_weeks)
  have c: "\<exists>pre x post. raw = pre @ x # post \<and> normalizeRow uid (length pre) x = Some r
          \<and> (\<forall>y\<in>set pre. raw_weekStart y \<noteq> Some (wk_weekStart r))"
    if "r \<in> set ?out" for r
  proof -
    from that have "r \<in> set (filterSeen {} ?xs)" unfolding out by simp
    from filterSeen_first [OF this] show ?thesis by auto
  qed
  from a b c show ?thesis by blast
qed

theorem normalize_first_wins_witness:
  "map wk_weekStart (normalizeWeeklyMeasurements exUid exRaw) = [14, 7]
   \<and> map wk_waistCm (normalizeWeeklyMeasurements exUid exRaw) = [Some 81, Some 80]
   \<and> (\<exists>pre x post. exRaw = pre @ x # post
         \<and> normalizeRow exUid (length pre) x = Some (normalizeWeeklyMeasurements exUid exRaw ! 1)
         \<and> (\<forall>y\<in>set pre.
               raw_weekStart y \<noteq> Some (wk_weekStart (normalizeWeeklyMeasurements exUid exRaw ! 1))))"
proof -
  have a: "map wk_weekStart (normalizeWeeklyMeasurements exUid exRaw) = [14, 7]" by code_simp
  have b: "map wk_waistCm (normalizeWeeklyMeasurements exUid exRaw) = [Some 81, Some 80]" by code_simp
  have "length (normalizeWeeklyMeasurements exUid exRaw) = 2"
    using a by (metis length_map length_Cons list.size(3) numeral_2_eq_2)
  then have mem: "normalizeWeeklyMeasurements exUid exRaw ! 1 \<in> set (normalizeWeeklyMeasurements exUid exRaw)"
    by simp
  from normalize_first_wins [of exUid exRaw, THEN conjunct2, THEN conjunct2, THEN bspec, OF mem] a b
  show ?thesis by blast
qed

section \<open>The rows of the CSV export\<close>

lemma rowLoop_lines:
  "rowLoop numStr dateStr lg weekly meals wsets rowsInDay i lines =
     lines @ map (\<lambda>k. rowLine numStr dateStr (rowCells lg weekly (nthOpt meals k) (nthOpt wsets k)))
               [i ..< rowsInDay]"
proof (induction numStr dateStr lg weekly meals wsets rowsInDay i lines rule: rowLoop.induct)
  case (1 numStr dateStr lg weekly meals wsets rowsInDay i lines)
  show ?case
  proof (cases "i < rowsInDay")
    case True
    then have "[i ..< rowsInDay] = i # [i + 1 ..< rowsInDay]"
      by (simp add: upt_conv_Cons)
    with True "1.IH" show ?thesis
      by (subst rowLoop.simps) simp
  next
    case False
    then show ?thesis by (subst rowLoop.simps) simp
  qed
qed

lemma length_csvMeals: "length (csvMeals lg) = max 1 (length (log_meals lg))"
  by (cases "log_meals lg") (simp_all add: csvMeals_def)

lemma logLines_lines:
  "logLines numStr dateStr weeklyRows lines lg =
     lines @ map (\<lambda>i. rowLine numStr dateStr
                        (rowCells lg (getWeekForDate weeklyRows (log_date lg))
                           (nthOpt (csvMeals lg) i) (nthOpt (allSets lg) i)))
               [0 ..< max (length (log_meals lg)) (max (length (allSets lg)) 1)]"
proof -
  have eq: "max (length (csvMeals lg)) (max (length (allSets lg)) 1)
        = max (length (log_meals lg)) (max (length (allSets lg)) 1)"
    unfolding length_csvMeals by linarith
  show ?thesis
    unfolding logLines_def Let_def rowLoop_lines eq by (rule refl)
qed

lemma foldl_logLines:
  "foldl (logLines numStr dateStr weeklyRows) lines ls =
     lines @ concat (map (\<lambda>lg. map (\<lambda>i. rowLine numStr dateStr
                        (rowCells lg (getWeekForDate weeklyRows (log_date lg))
                           (nthOpt (csvMeals lg) i) (nthOpt (allSets lg) i)))
               [0 ..< max (length (log_meals lg)) (max (length (allSets lg)) 1)]) ls)"
  by (induction ls arbitrary: lines) (simp_all add: logLines_lines)

lemma toCsvLines_rows:
  "toCsvLines numStr dateStr rows start end weeklyRows =
     joinWith '','' csvHeader
     # concat (map (\<lambda>lg. map (\<lambda>i. rowLine numStr dateStr
                        (rowCells lg (getWeekForDate weeklyRows (log_date lg))
                           (nthOpt (csvMeals lg) i) (nthOpt (allSets lg) i)))
               [0 ..< max (length (log_meals lg)) (max (length (allSets lg)) 1)])
          (filter (\<lambda>row. isInRange (log_date row) start end) rows))"
  by (simp add: toCsvLines_def Let_def foldl_logLines)

lemma set_columns_blank:
  "length (allSets lg) \<le> i \<Longrightarrow>
   drop 22 (rowCells lg weekly meal (nthOpt (allSets lg) i)) = replicate 5 (Txt [])"
proof -
  assume "length (allSets lg) \<le> i"
  then have none: "nthOpt (allSets lg) i = None"
    by (simp add: nthOpt_def)
  have "length (mealCells meal) = 6"
    by (simp add: mealCells_def split: option.splits CsvMeal.splits)
  then show ?thesis
    unfolding none by (simp add: rowCells_def setCells_def numeral_eq_Suc)
qed

lemma meal_columns_blank:
  "max 1 (length (log_meals lg)) \<le> i \<Longrightarrow>
   take 6 (drop 16 (rowCells lg weekly (nthOpt (csvMeals lg) i) wset)) = replicate 6 (Txt [])"
proof -
  assume "max 1 (length (log_meals lg)) \<le> i"
  then have "\<not> i < length (csvMeals lg)"
    unfolding length_csvMeals by linarith
  then have "nthOpt (csvMeals lg) i = None"
    by (simp add: nthOpt_def)
  then show ?thesis
    by (simp add: rowCells_def mealCells_def numeral_eq_Suc)
qed

lemma meal_columns_item:
  "i < length (log_meals lg) \<Longrightarrow> nthOpt (csvMeals lg) i = Some (MealRow (log_meals lg ! i))"
  by (auto simp: nthOpt_def csvMeals_def)

lemma meal_columns_placeholder:
  "log_meals lg = [] \<Longrightarrow>
   take 5 (drop 17 (rowCells lg weekly (nthOpt (csvMeals lg) 0) wset)) = replicate 5 (Num 0)"
  by (simp add: rowCells_def mealCells_def nthOpt_def csvMeals_def numeral_eq_Suc)

lemma blank_text: "escapeValue (renderCell numStr dateStr (Txt [])) = []"
  by (simp add: escapeValue_def renderCell_def)

text \<open>
  Claim C10, as stated, has the columns of the shorter list blank in the extra rows. For a
  log with no meal items the serializer puts a placeholder meal in row 0: with no meal and
  one workout set, the one row of the log has the meal columns \<open> (undefined),0,0,0,0,0\<close>.
\<close>

theorem csv_blank_counterexample:
  "length (log_meals exOnlySet) = 0 \<and> length (allSets exOnlySet) = 1
   \<and> take 6 (drop 16 (rowCells exOnlySet None (nthOpt (csvMeals exOnlySet) 0) (nthOpt (allSets exOnlySet) 0)))
       = [Txt '' (undefined)'', Num 0, Num 0, Num 0, Num 0, Num 0]
   \<and> toCsvLines exNum exDate [exOnlySet] 94 100 []
       = [joinWith '','' csvHeader, ''d,nogym,,,0,,,,,,,,,,,, (undefined),0,0,0,0,0,jalon,n,n,n,'']"
  by code_simp

text \<open>
  Claim C10, amended. For every daily log inside the export range the serializer emits
  exactly \<open>max(mealCount, workoutSetCount, 1)\<close> data rows, after the header and in the order
  of the logs; row \<open>i\<close> pairs meal item \<open>i\<close> with workout set \<open>i\<close>. The workout columns
  (the last five) are blank in the rows from \<open>workoutSetCount\<close> on; the meal columns (the
  six before them) are blank in the rows from \<open>max(mealCount, 1)\<close> on; for a log with no
  meal items, row 0 carries a placeholder meal whose grams and macro columns are 0. A blank
  cell is the empty text.
\<close>

theorem csv_rows:
  "toCsvLines numStr dateStr rows start end weeklyRows =
     joinWith '','' csvHeader
     # concat (map (\<lambda>lg. map (\<lambda>i. rowLine numStr dateStr
                        (rowCells lg (getWeekForDate weeklyRows (log_date lg))
                           (nthOpt (csvMeals lg) i) (nthOpt (allSets lg) i)))
               [0 ..< max (length (log_meals lg)) (max (length (allSets lg)) 1)])
          (filter (\<lambda>row. isInRange (log_date row) start end) rows))
   \<and> (\<forall>i < length (log_meals lg). nthOpt (csvMeals lg) i = Some (MealRow (log_meals lg ! i)))
   \<and> (\<forall>i < length (allSets lg). nthOpt (allSets lg) i = Some (allSets lg ! i))
   \<and> (\<forall>i \<ge> length (allSets lg).
        drop 22 (rowCells lg weekly meal (nthOpt (allSets lg) i)) = replicate 5 (Txt []))
   \<and> (\<forall>i \<ge> max 1 (length (log_meals lg)).
        take 6 (drop 16 (rowCells lg weekly (nthOpt (csvMeals lg) i) wset)) = replicate 6 (Txt []))
   \<and> (log_meals lg = [] \<longrightarrow>
        take 5 (drop 17 (rowCells lg weekly (nthOpt (csvMeals lg) 0) wset)) = replicate 5 (Num 0))
   \<and> escapeValue (renderCell numStr dateStr (Txt [])) = []"
proof (intro conjI allI impI)
  show "toCsvLines numStr dateStr rows start end weeklyRows =
     joinWith '','' csvHeader
     # concat (map (\<lambda>lg. map (\<lambda>i. rowLine numStr dateStr
                        (rowCells lg (getWeekForDate weeklyRows (log_date lg))
                           (nthOpt (csvMeals lg) i) (nthOpt (allSets lg) i)))
               [0 ..< max (length (log_meals lg)) (max (length (allSets lg)) 1)])
          (filter (\<lambda>row. isInRange (log_date row) start end) rows))"
    by (rule toCsvLines_rows)
  show "nthOpt (csvMeals lg) i = Some (MealRow (log_meals lg ! i))" if "i < length (log_meals lg)" for i
    using that by (rule meal_columns_item)
  show "nthOpt (allSets lg) i = Some (allSets lg ! i)" if "i < length (allSets lg)" for i
    using that by (simp add: nthOpt_def)
  show "drop 22 (rowCells lg weekly meal (nthOpt (allSets lg) i)) = replicate 5 (Txt [])"
    if "length (allSets lg) \<le> i" for i
    using that by (rule set_columns_blank)
  show "take 6 (drop 16 (rowCells lg weekly (nthOpt (csvMeals lg) i) wset)) = replicate 6 (Txt [])"
    if "max 1 (length (log_meals lg)) \<le> i" for i
    using that by (rule meal_columns_blank)
  show "take 5 (drop 17 (rowCells lg weekly (nthOpt (csvMeals lg) 0) wset)) = replicate 5 (Num 0)"
    if "log_meals lg = []"
    using that by (rule meal_columns_placeholder)
  show "escapeValue (renderCell numStr dateStr (Txt [])) = []"
    by (rule blank_text)
qed

text \<open>
  The case of the claim: 2 meal items and 1 workout set give 2 rows after the header, the
  workout columns of the second row blank.
\<close>

theorem csv_rows_witness:
  "length (log_meals exCsvLog) = 2 \<and> length (allSets exCsvLog) = 1
   \<and> length (toCsvLines exNum exDate [exCsvLog] 94 100 []) = 1 + 2
   \<and> drop 22 (rowCells exCsvLog None (nthOpt (csvMeals exCsvLog) 1) (nthOpt (allSets exCsvLog) 1))
       = replicate 5 (Txt [])"
proof -
  have m: "length (log_meals exCsvLog) = 2" by code_simp
  have s: "length (allSets exCsvLog) = 1" by code_simp
  have r: "filter (\<lambda>row. isInRange (log_date row) 94 100) [exCsvLog] = [exCsvLog]" by code_simp
  note inst = csv_rows [of exNum exDate "[exCsvLog]" 94 100 "[]" exCsvLog None
      "nthOpt (csvMeals exCsvLog) 1" None]
  from inst have "length (toCsvLines exNum exDate [exCsvLog] 94 100 []) = 1 + 2"
    unfolding r by (simp add: m s)
  moreover from inst s
  have "drop 22 (rowCells exCsvLog None (nthOpt (csvMeals exCsvLog) 1) (nthOpt (allSets exCsvLog) 1))
       = replicate 5 (Txt [])"
    by simp
  ultimately show ?thesis using m s by simp
qed

end
